theory Spec2Isabelle
  imports Complex_Main "HOL-Library.Sublist"
begin

section \<open>Python strings\<close>

text \<open>
  A Python \<open>str\<close> is a sequence of Unicode code points; a code point is a natural number.
  String literals of the script are ASCII and are written with \<open>lit\<close>; the characters an
  Isabelle string literal cannot hold are given by their code point (10 is the newline,
  34 the double quote).
\<close>

type_synonym pystr = "nat list"

definition lit :: "string \<Rightarrow> pystr" where
  "lit s = map of_char s"

text \<open>
  \<open>str.isspace\<close> of one character, which is also the set \<open>str.strip()\<close> and
  \<open>str.lstrip()\<close> remove when called without argument: the ASCII controls 9-13 and 28-31,
  the space, U+0085, U+00A0, U+1680, U+2000-U+200A, U+2028, U+2029, U+202F, U+205F, U+3000.
\<close>

definition isspace :: "nat \<Rightarrow> bool" where
  "isspace c \<longleftrightarrow>
     c \<in> {9, 10, 11, 12, 13, 28, 29, 30, 31, 32, 133, 160, 5760,
          8232, 8233, 8239, 8287, 12288} \<or> (8192 \<le> c \<and> c \<le> 8202)"

text \<open>The line boundaries of \<open>str.splitlines\<close>.\<close>

definition is_linebreak :: "nat \<Rightarrow> bool" where
  "is_linebreak c \<longleftrightarrow> c \<in> {10, 11, 12, 13, 28, 29, 30, 133, 8232, 8233}"

definition lstrip :: "pystr \<Rightarrow> pystr" where
  "lstrip s = dropWhile isspace s"

definition rstrip :: "pystr \<Rightarrow> pystr" where
  "rstrip s = rev (dropWhile isspace (rev s))"

definition strip :: "pystr \<Rightarrow> pystr" where
  "strip s = rstrip (lstrip s)"

text \<open>\<open>s.lstrip(chars)\<close> and \<open>s.strip(chars)\<close>: the argument is a set of characters.\<close>

definition lstrip_chars :: "pystr \<Rightarrow> pystr \<Rightarrow> pystr" where
  "lstrip_chars chars s = dropWhile (\<lambda>c. c \<in> set chars) s"

definition rstrip_chars :: "pystr \<Rightarrow> pystr \<Rightarrow> pystr" where
  "rstrip_chars chars s = rev (dropWhile (\<lambda>c. c \<in> set chars) (rev s))"

definition strip_chars :: "pystr \<Rightarrow> pystr \<Rightarrow> pystr" where
  "strip_chars chars s = rstrip_chars chars (lstrip_chars chars s)"

definition startswith :: "pystr \<Rightarrow> pystr \<Rightarrow> bool" where
  "startswith s p = prefix p s"

text \<open>
  \<open>str.splitlines()\<close>: the text is cut at every line boundary, \<open>\r\n\<close> counting as one;
  the boundaries are dropped, and a last piece is a line only when it is not empty. The
  first argument is the line being read, reversed.
\<close>

fun splitlines_from :: "pystr \<Rightarrow> pystr \<Rightarrow> pystr list" where
  "splitlines_from acc [] = (if acc = [] then [] else [rev acc])"
| "splitlines_from acc [c] =
     (if is_linebreak c then [rev acc] else [rev (c # acc)])"
| "splitlines_from acc (c # d # cs) =
     (if c = 13 \<and> d = 10 then rev acc # splitlines_from [] cs
      else if is_linebreak c then rev acc # splitlines_from [] (d # cs)
      else splitlines_from (c # acc) (d # cs))"

definition splitlines :: "pystr \<Rightarrow> pystr list" where
  "splitlines text = splitlines_from [] text"

subsection \<open>What the runtime's Unicode database decides\<close>

text \<open>
  \<open>str.lower\<close> and \<open>str.isalnum\<close> follow the ASCII table on code points below 128. For the
  others they read the Unicode database of the interpreter, which is no part of the script:
  it is a parameter. \<open>lower_ext rt s i\<close> is what the code point at index \<open>i\<close> of \<open>s\<close> becomes
  (one code point may become several, and the result may depend on its neighbours);
  \<open>isalnum_ext rt c\<close> says whether \<open>c\<close> is alphanumeric and \<open>isupper_ext rt c\<close> whether
  it is an uppercase letter (the script never asks; the specification speaks of lowercase
  characters). \<open>str_of rt\<close> is the builtin \<open>str\<close> on a decoded JSON value.
\<close>

datatype json =
    JNull
  | JBool bool
  | JInt int
  | JFloat int int
  | JStr pystr
  | JList "json list"
  | JDict "(pystr \<times> json) list"

record runtime =
  lower_ext :: "pystr \<Rightarrow> nat \<Rightarrow> pystr"
  isalnum_ext :: "nat \<Rightarrow> bool"
  isupper_ext :: "nat \<Rightarrow> bool"
  str_of :: "json \<Rightarrow> pystr"

definition ascii_lower :: "nat \<Rightarrow> nat" where
  "ascii_lower c = (if 65 \<le> c \<and> c \<le> 90 then c + 32 else c)"

definition py_lower :: "runtime \<Rightarrow> pystr \<Rightarrow> pystr" where
  "py_lower rt s =
     concat (map (\<lambda>i. if s ! i < 128 then [ascii_lower (s ! i)] else lower_ext rt s i)
                 [0..<length s])"

definition py_isalnum :: "runtime \<Rightarrow> nat \<Rightarrow> bool" where
  "py_isalnum rt c =
     (if c < 128 then (48 \<le> c \<and> c \<le> 57) \<or> (65 \<le> c \<and> c \<le> 90) \<or> (97 \<le> c \<and> c \<le> 122)
      else isalnum_ext rt c)"

definition py_isupper :: "runtime \<Rightarrow> nat \<Rightarrow> bool" where
  "py_isupper rt c = (if c < 128 then 65 \<le> c \<and> c \<le> 90 else isupper_ext rt c)"

section \<open>The outside world\<close>

text \<open>
  Exceptions are values. \<open>RuntimeError\<close> carries its message; \<open>HTTPError\<close> the status.
\<close>

datatype error =
    RuntimeError pystr
  | TypeError
  | IndexError
  | KeyError
  | AttributeError
  | HTTPError nat
  | JSONDecodeError
  | APIError
  | OSError

datatype provider = OpenAI | HuggingFace

record chat_request =
  model :: pystr
  messages :: "(pystr \<times> pystr) list"
  temperature :: real
  max_tokens :: nat

record hf_request =
  url :: pystr
  authorization :: pystr
  inputs :: pystr
  wait_for_model :: bool
  max_new_tokens :: nat
  timeout :: nat

record http_response =
  status_code :: nat
  body :: "json option"

text \<open>
  Everything a run reads from outside: the environment, the answers of the two providers
  (the catalog is \<open>openai.Model.list().data\<close>, a list of model objects, each a dict
  that carries the identifier under \<open>id\<close>; a chat answer is the list of
  \<open>choices[i].message.content\<close>, \<open>None\<close> where a choice has no text), the date at the two
  places that read it (line 85 and line 57), and whether the file system accepts the
  directory and the file.
\<close>

record world =
  environ :: "pystr \<Rightarrow> pystr option"
  model_list :: "pystr \<Rightarrow> error + json list"
  chat_completion :: "pystr \<Rightarrow> chat_request \<Rightarrow> error + pystr option list"
  requests_post :: "hf_request \<Rightarrow> error + http_response"
  today_front :: pystr
  today_save :: pystr
  mkdir :: "pystr \<Rightarrow> error option"
  write_file :: "pystr \<Rightarrow> pystr \<Rightarrow> pystr \<Rightarrow> error option"

text \<open>
  Everything a run does to the outside, in order. \<open>Invoke\<close> marks the call of a generator
  by the driver (lines 79 and 81).
\<close>

datatype event =
    Stdout pystr
  | Invoke provider pystr
  | ModelList pystr
  | ChatCompletion pystr chat_request
  | HttpPost hf_request
  | MkDir pystr
  | WriteFile pystr pystr pystr

fun is_network :: "event \<Rightarrow> bool" where
  "is_network (ModelList _) = True"
| "is_network (ChatCompletion _ _) = True"
| "is_network (HttpPost _) = True"
| "is_network _ = False"

fun is_file_write :: "event \<Rightarrow> bool" where
  "is_file_write (MkDir _) = True"
| "is_file_write (WriteFile _ _ _) = True"
| "is_file_write _ = False"

fun is_invoke :: "event \<Rightarrow> bool" where
  "is_invoke (Invoke _ _) = True"
| "is_invoke _ = False"

section \<open>The script\<close>

subsection \<open>Line 8: the provider flag\<close>

definition USE_OPENAI :: "runtime \<Rightarrow> world \<Rightarrow> bool" where
  "USE_OPENAI rt w \<longleftrightarrow>
     py_lower rt (case environ w (lit ''USE_OPENAI'') of None \<Rightarrow> lit ''true'' | Some v \<Rightarrow> v)
       \<in> set [lit ''1'', lit ''true'', lit ''yes'']"

subsection \<open>Lines 10-21: \<open>gen_with_openai\<close>\<close>

text \<open>
  The catalog is read while the arguments of the chat call are evaluated, so before it.
  \<open>x in data\<close> on a list compares \<open>x\<close> with each entry.
\<close>

definition openai_request :: "json list \<Rightarrow> pystr \<Rightarrow> chat_request" where
  "openai_request data prompt =
     \<lparr> model = (if JStr (lit ''gpt-4o-mini'') \<in> set data then lit ''gpt-4o-mini''
                else lit ''gpt-4o''),
       messages = [(lit ''user'', prompt)],
       temperature = 0.7,
       max_tokens = 800 \<rparr>"

definition first_choice :: "pystr option list \<Rightarrow> error + pystr" where
  "first_choice choices =
     (case choices of
        [] \<Rightarrow> Inl IndexError
      | None # _ \<Rightarrow> Inl AttributeError
      | Some content # _ \<Rightarrow> Inr (strip content))"

definition gen_with_openai :: "world \<Rightarrow> pystr \<Rightarrow> event list \<times> (error + pystr)" where
  "gen_with_openai w prompt =
     (case environ w (lit ''OPENAI_API_KEY'') of
        None \<Rightarrow> ([], Inl (RuntimeError (lit ''OPENAI_API_KEY not set'')))
      | Some key \<Rightarrow>
          if key = [] then ([], Inl (RuntimeError (lit ''OPENAI_API_KEY not set'')))
          else
            (case model_list w key of
               Inl e \<Rightarrow> ([ModelList key], Inl e)
             | Inr data \<Rightarrow>
                 (case chat_completion w key (openai_request data prompt) of
                    Inl e \<Rightarrow>
                      ([ModelList key, ChatCompletion key (openai_request data prompt)], Inl e)
                  | Inr choices \<Rightarrow>
                      ([ModelList key, ChatCompletion key (openai_request data prompt)],
                       first_choice choices))))"

subsection \<open>Lines 23-44: \<open>gen_with_hf\<close>\<close>

text \<open>
  \<open>k in x\<close> for a string \<open>k\<close>: a key of a dict, a substring of a string, an entry of a
  list; a \<open>TypeError\<close> on a number, a boolean and \<open>None\<close>. \<open>x[k]\<close> for a string \<open>k\<close>: the
  value of a dict; a \<open>TypeError\<close> on everything else. A dict is its list of items, read
  with \<open>map_of\<close>.
\<close>

definition py_in :: "pystr \<Rightarrow> json \<Rightarrow> error + bool" where
  "py_in k x =
     (case x of
        JDict d \<Rightarrow> Inr (k \<in> fst ` set d)
      | JStr s \<Rightarrow> Inr (sublist k s)
      | JList l \<Rightarrow> Inr (JStr k \<in> set l)
      | _ \<Rightarrow> Inl TypeError)"

definition py_getitem :: "json \<Rightarrow> pystr \<Rightarrow> error + json" where
  "py_getitem x k =
     (case x of
        JDict d \<Rightarrow> (case map_of d k of None \<Rightarrow> Inl KeyError | Some v \<Rightarrow> Inr v)
      | _ \<Rightarrow> Inl TypeError)"

text \<open>Lines 36-44, on the decoded body \<open>data\<close>.\<close>

definition hf_extract :: "runtime \<Rightarrow> json \<Rightarrow> error + json" where
  "hf_extract rt data =
     (case data of
        JDict d \<Rightarrow>
          (case map_of d (lit ''error'') of
             Some (JStr msg) \<Rightarrow> Inl (RuntimeError (lit ''HF error: '' @ msg))
           | Some _ \<Rightarrow> Inl TypeError
           | None \<Rightarrow> Inr (JStr (str_of rt data)))
      | JList [] \<Rightarrow> Inl IndexError
      | JList (x # _) \<Rightarrow>
          (case py_in (lit ''generated_text'') x of
             Inl e \<Rightarrow> Inl e
           | Inr True \<Rightarrow> py_getitem x (lit ''generated_text'')
           | Inr False \<Rightarrow>
               (case x of
                  JDict d \<Rightarrow>
                    Inr (case map_of d (lit ''generated_text'') of
                           Some v \<Rightarrow> v
                         | None \<Rightarrow> JStr (str_of rt x))
                | _ \<Rightarrow> Inr (JStr (str_of rt data))))
      | _ \<Rightarrow> Inr (JStr (str_of rt data)))"

definition hf_payload :: "pystr \<Rightarrow> pystr \<Rightarrow> hf_request" where
  "hf_payload token prompt =
     \<lparr> url = lit ''https://api-inference.huggingface.co/models/gpt2'',
       authorization = lit ''Bearer '' @ token,
       inputs = prompt,
       wait_for_model = True,
       max_new_tokens = 400,
       timeout = 60 \<rparr>"

definition gen_with_hf :: "runtime \<Rightarrow> world \<Rightarrow> pystr \<Rightarrow> event list \<times> (error + json)" where
  "gen_with_hf rt w prompt =
     (case environ w (lit ''HF_INFERENCE_API_TOKEN'') of
        None \<Rightarrow> ([], Inl (RuntimeError (lit ''HF_INFERENCE_API_TOKEN not set'')))
      | Some token \<Rightarrow>
          if token = [] then ([], Inl (RuntimeError (lit ''HF_INFERENCE_API_TOKEN not set'')))
          else
            (case requests_post w (hf_payload token prompt) of
               Inl e \<Rightarrow> ([HttpPost (hf_payload token prompt)], Inl e)
             | Inr resp \<Rightarrow>
                 ([HttpPost (hf_payload token prompt)],
                  if 400 \<le> status_code resp \<and> status_code resp < 600
                  then Inl (HTTPError (status_code resp))
                  else (case body resp of
                          None \<Rightarrow> Inl JSONDecodeError
                        | Some data \<Rightarrow> hf_extract rt data))))"

subsection \<open>Lines 46-54: \<open>build_prompt\<close>\<close>

definition prompt_head :: pystr where
  "prompt_head =
     [10] @ lit ''You are an assistant that writes a clear, helpful 450-700 word blog post for humans.''
     @ [10] @ lit ''Niche: ''"

definition prompt_tail :: pystr where
  "prompt_tail =
     [10] @ lit ''Output format:''
     @ [10] @ lit ''YAML frontmatter with title and date, then markdown body.''
     @ [10] @ lit ''Include an H1 title, short intro, 3 subheadings (H2), one short conclusion, and one simple call-to-action line at the end that links to https://example.com/affiliate (placeholder).''
     @ [10] @ lit ''Be concise, avoid made-up facts, and keep it practical.''
     @ [10]"

definition build_prompt :: "pystr \<Rightarrow> pystr" where
  "build_prompt niche = prompt_head @ niche @ prompt_tail"

subsection \<open>Lines 56-64: \<open>save_markdown\<close>\<close>

text \<open>The variable \<open>safe\<close> of line 58.\<close>

definition safe :: "runtime \<Rightarrow> pystr \<Rightarrow> pystr" where
  "safe rt title =
     strip_chars (lit ''-'')
       (take 60 (map (\<lambda>c. if py_isalnum rt c then c else 45) (py_lower rt title)))"

definition save_markdown ::
  "runtime \<Rightarrow> world \<Rightarrow> pystr \<Rightarrow> pystr \<Rightarrow> pystr \<Rightarrow> event list \<times> (error + pystr)" where
  "save_markdown rt w title content out_dir =
     (let filename = today_save w @ lit ''-'' @ safe rt title @ lit ''.md'' in
      case mkdir w out_dir of
        Some e \<Rightarrow> ([MkDir out_dir], Inl e)
      | None \<Rightarrow>
          (case write_file w out_dir filename content of
             Some e \<Rightarrow> ([MkDir out_dir, WriteFile out_dir filename content], Inl e)
           | None \<Rightarrow>
               ([MkDir out_dir, WriteFile out_dir filename content],
                Inr (out_dir @ lit ''/'' @ filename))))"

subsection \<open>Lines 66-72: \<open>parse_title_from_output\<close>\<close>

text \<open>The \<open>for\<close> loop over the lines, and the fallback after it.\<close>

fun parse_title_loop :: "pystr list \<Rightarrow> pystr" where
  "parse_title_loop [] = lit ''Auto Generated Post''"
| "parse_title_loop (line # rest) =
     (if startswith (strip line) (lit ''#'')
      then strip (lstrip_chars (lit ''# '') (strip line))
      else parse_title_loop rest)"

definition parse_title_from_output :: "pystr \<Rightarrow> pystr" where
  "parse_title_from_output text = parse_title_loop (splitlines text)"

subsection \<open>Lines 74-88: \<open>main\<close>\<close>

text \<open>The f-string of line 85, and lines 83-86: what is written for the text \<open>out\<close>.\<close>

definition front :: "pystr \<Rightarrow> pystr \<Rightarrow> pystr" where
  "front title date =
     lit ''---'' @ [10] @ lit ''title: '' @ [34] @ title @ [34, 10]
     @ lit ''date: '' @ date @ [10] @ lit ''---'' @ [10, 10]"

definition ensure_frontmatter :: "pystr \<Rightarrow> pystr \<Rightarrow> pystr" where
  "ensure_frontmatter date out =
     (if \<not> startswith (lstrip out) (lit ''---'')
      then front (parse_title_from_output out) date @ out
      else out)"

text \<open>Lines 78-81. The answer of the first provider is a string.\<close>

definition generate :: "runtime \<Rightarrow> world \<Rightarrow> pystr \<Rightarrow> event list \<times> (error + json)" where
  "generate rt w prompt =
     (if USE_OPENAI rt w
      then (Invoke OpenAI prompt # fst (gen_with_openai w prompt),
            map_sum id JStr (snd (gen_with_openai w prompt)))
      else (Invoke HuggingFace prompt # fst (gen_with_hf rt w prompt),
            snd (gen_with_hf rt w prompt)))"

definition niche_of :: "world \<Rightarrow> pystr" where
  "niche_of w =
     (case environ w (lit ''NICHE'') of
        None \<Rightarrow> lit ''budget camping gear for beginners''
      | Some n \<Rightarrow> n)"

text \<open>
  A value that is no string has no \<open>splitlines\<close>: line 68 raises an \<open>AttributeError\<close>.
\<close>

definition main :: "runtime \<Rightarrow> world \<Rightarrow> event list \<times> (error + pystr)" where
  "main rt w =
     (let prompt = build_prompt (niche_of w);
          t0 = [Stdout (lit ''Generating post for niche: '' @ niche_of w)];
          g = generate rt w prompt
      in case snd g of
           Inl e \<Rightarrow> (t0 @ fst g, Inl e)
         | Inr (JStr out) \<Rightarrow>
             (let s = save_markdown rt w (parse_title_from_output out)
                        (ensure_frontmatter (today_front w) out) (lit ''posts'')
              in case snd s of
                   Inl e \<Rightarrow> (t0 @ fst g @ fst s, Inl e)
                 | Inr path \<Rightarrow>
                     (t0 @ fst g @ fst s @ [Stdout (lit ''Saved: '' @ path)], Inr path))
         | Inr _ \<Rightarrow> (t0 @ fst g, Inl AttributeError))"

section \<open>The specification's words\<close>

text \<open>
  The title as the specification words it: the first line that starts with \<open>#\<close> (once its
  surrounding whitespace is stripped), with the marker, the leading run of \<open>#\<close>, and the
  surrounding whitespace stripped.
\<close>

definition title_spec :: "pystr \<Rightarrow> pystr" where
  "title_spec text =
     (case find (\<lambda>line. startswith (strip line) (lit ''#'')) (splitlines text) of
        None \<Rightarrow> lit ''Auto Generated Post''
      | Some line \<Rightarrow> strip (dropWhile (\<lambda>c. c = 35) (strip line)))"

text \<open>
  The slug as the specification words it: the lowercased title, every character that is not
  alphanumeric replaced by a hyphen, cut to 60 characters, leading and trailing hyphens
  stripped.
\<close>

definition slug_spec :: "runtime \<Rightarrow> pystr \<Rightarrow> pystr" where
  "slug_spec rt title =
     (let lowered = py_lower rt title;
          hyphenated = map (\<lambda>c. if py_isalnum rt c then c else 45) lowered;
          truncated = take 60 hyphenated
      in rev (dropWhile (\<lambda>c. c = 45) (rev (dropWhile (\<lambda>c. c = 45) truncated))))"

text \<open>
  A character the specification allows in a slug: a hyphen, or an alphanumeric character
  that is not an uppercase letter.
\<close>

definition lowercase_alnum_or_hyphen :: "runtime \<Rightarrow> nat \<Rightarrow> bool" where
  "lowercase_alnum_or_hyphen rt c \<longleftrightarrow> c = 45 \<or> (py_isalnum rt c \<and> \<not> py_isupper rt c)"

section \<open>Concrete runs\<close>

text \<open>
  A runtime and worlds on which the definitions are evaluated. The runtime leaves every
  code point above 127 as it is and counts none of them as alphanumeric. \<open>camping_world\<close>
  is the end-to-end scenario: the second provider answers with one generated text.
\<close>

definition example_runtime :: runtime where
  "example_runtime =
     \<lparr> lower_ext = (\<lambda>s i. [s ! i]), isalnum_ext = (\<lambda>c. False), isupper_ext = (\<lambda>c. False),
       str_of = (\<lambda>j. lit ''<json>'') \<rparr>"

text \<open>
  The interpreter's database at U+03D2 (code point 978, GREEK UPSILON WITH HOOK SYMBOL): an
  uppercase letter, alphanumeric, that \<open>str.lower\<close> leaves as it is.
\<close>

definition upsilon_runtime :: runtime where
  "upsilon_runtime =
     \<lparr> lower_ext = (\<lambda>s i. [s ! i]), isalnum_ext = (\<lambda>c. c = 978),
       isupper_ext = (\<lambda>c. c = 978), str_of = (\<lambda>j. lit ''<json>'') \<rparr>"

definition camping_text :: pystr where
  "camping_text = lit ''# Camp Smart'' @ [10, 10] @ lit ''Body...''"

definition camping_world :: world where
  "camping_world =
     \<lparr> environ = [lit ''NICHE'' \<mapsto> lit ''budget camping gear'',
                  lit ''USE_OPENAI'' \<mapsto> lit ''false'',
                  lit ''HF_INFERENCE_API_TOKEN'' \<mapsto> lit ''hf_token''],
       model_list = (\<lambda>key. Inl APIError),
       chat_completion = (\<lambda>key req. Inl APIError),
       requests_post = (\<lambda>req. Inr \<lparr> status_code = 200,
          body = Some (JList [JDict [(lit ''generated_text'', JStr camping_text)]]) \<rparr>),
       today_front = lit ''2024-05-01'',
       today_save = lit ''2024-05-01'',
       mkdir = (\<lambda>d. None),
       write_file = (\<lambda>d f c. None) \<rparr>"

text \<open>A text that carries frontmatter and a heading, and one whose frontmatter is indented.\<close>

definition prefixed_text :: pystr where
  "prefixed_text =
     lit ''---'' @ [10] @ lit ''title: A'' @ [10] @ lit ''---'' @ [10] @ lit ''# B''"

definition indented_text :: pystr where
  "indented_text = [32] @ lit ''---'' @ [10] @ lit ''title: A'' @ [10] @ lit ''---''"

text \<open>
  Two worlds without the credential of the provider they select, and one in which the
  first provider lists both models, as objects, and answers with one choice.
\<close>

definition no_key_world :: world where
  "no_key_world =
     \<lparr> environ = [lit ''USE_OPENAI'' \<mapsto> lit ''True''],
       model_list = (\<lambda>key. Inl APIError),
       chat_completion = (\<lambda>key req. Inl APIError),
       requests_post = (\<lambda>req. Inl APIError),
       today_front = lit ''2024-05-01'',
       today_save = lit ''2024-05-01'',
       mkdir = (\<lambda>d. None),
       write_file = (\<lambda>d f c. None) \<rparr>"

definition no_token_world :: world where
  "no_token_world = no_key_world \<lparr> environ := [lit ''USE_OPENAI'' \<mapsto> lit ''no''] \<rparr>"

definition openai_catalog :: "json list" where
  "openai_catalog =
     [JDict [(lit ''id'', JStr (lit ''gpt-4o'')), (lit ''object'', JStr (lit ''model''))],
      JDict [(lit ''id'', JStr (lit ''gpt-4o-mini'')), (lit ''object'', JStr (lit ''model''))]]"

definition openai_world :: world where
  "openai_world =
     \<lparr> environ = [lit ''OPENAI_API_KEY'' \<mapsto> lit ''sk-test''],
       model_list = (\<lambda>key. Inr openai_catalog),
       chat_completion = (\<lambda>key req. Inr [Some ([32, 10] @ lit ''# Title'' @ [10, 32])]),
       requests_post = (\<lambda>req. Inl APIError),
       today_front = lit ''2024-05-01'',
       today_save = lit ''2024-05-01'',
       mkdir = (\<lambda>d. None),
       write_file = (\<lambda>d f c. None) \<rparr>"

text \<open>A text whose second line is its first heading.\<close>

definition great_text :: pystr where
  "great_text = lit ''Intro'' @ [10] @ lit ''# My Great Post'' @ [10] @ lit ''## Next''"

section \<open>Properties\<close>

subsection \<open>Strings and the concrete runs\<close>

lemma lstrip_frontmatter: "startswith out (lit ''---'') \<Longrightarrow> lstrip out = out"
  by (cases out) (auto simp: startswith_def lit_def lstrip_def isspace_def)

lemma inj_of_char_nat: "inj (of_char :: char \<Rightarrow> nat)"
  by (rule injI) simp

lemma lit_eq_iff: "lit a = lit b \<longleftrightarrow> a = b"
  by (simp add: lit_def inj_map_eq_map inj_of_char_nat)

lemma lit_Nil_iff: "lit a = [] \<longleftrightarrow> a = []"
  by (simp add: lit_def)

lemma py_lower_ascii:
  assumes "\<forall>c\<in>set s. c < 128"
  shows "py_lower rt s = map ascii_lower s"
proof -
  have "py_lower rt s = concat (map (\<lambda>i. [ascii_lower (s ! i)]) [0..<length s])"
    unfolding py_lower_def using assms by (intro arg_cong [where f = concat] map_cong) auto
  also have "\<dots> = map (\<lambda>i. ascii_lower (s ! i)) [0..<length s]"
    by (induction "[0..<length s]") (simp_all add: concat_map_singleton)
  also have "\<dots> = map ascii_lower s"
    by (simp add: map_nth flip: map_map [unfolded comp_def])
  finally show ?thesis .
qed

lemma lower_false: "py_lower rt (lit ''false'') = lit ''false''"
  by (subst py_lower_ascii) (simp_all add: lit_def ascii_lower_def)

lemma camping_flag: "\<not> USE_OPENAI example_runtime camping_world"
  by (simp add: USE_OPENAI_def camping_world_def lit_eq_iff lower_false)

lemma camping_extract:
  "hf_extract rt (JList [JDict [(lit ''generated_text'', JStr camping_text)]]) = Inr (JStr camping_text)"
  by (simp add: hf_extract_def py_in_def py_getitem_def)

lemma camping_generate:
  "generate example_runtime camping_world p =
     ([Invoke HuggingFace p, HttpPost (hf_payload (lit ''hf_token'') p)], Inr (JStr camping_text))"
  by (simp add: generate_def camping_flag gen_with_hf_def camping_extract)
     (simp add: camping_world_def lit_eq_iff lit_Nil_iff camping_extract)

lemmas str_defs = lit_def strip_def lstrip_def rstrip_def isspace_def is_linebreak_def
  startswith_def lstrip_chars_def rstrip_chars_def strip_chars_def

lemma camping_lines:
  "splitlines camping_text = [lit ''# Camp Smart'', [], lit ''Body...'']"
  by (simp add: camping_text_def splitlines_def lit_def is_linebreak_def)

lemma camping_title: "parse_title_from_output camping_text = lit ''Camp Smart''"
  by (simp add: parse_title_from_output_def camping_lines) (simp add: str_defs)

lemma camping_safe: "safe rt (lit ''Camp Smart'') = lit ''camp-smart''"
  by (subst safe_def, subst py_lower_ascii)
     (simp_all add: lit_def ascii_lower_def py_isalnum_def strip_chars_def lstrip_chars_def rstrip_chars_def)

lemma camping_not_front: "\<not> startswith (lstrip camping_text) (lit ''---'')"
  by (simp add: camping_text_def str_defs)

lemma camping_save:
  "save_markdown example_runtime camping_world (lit ''Camp Smart'') c (lit ''posts'') =
      ([MkDir (lit ''posts''), WriteFile (lit ''posts'') (lit ''2024-05-01-camp-smart.md'') c],
       Inr (lit ''posts/2024-05-01-camp-smart.md''))"
  by (simp add: save_markdown_def camping_safe Let_def) (simp add: camping_world_def lit_def)

lemma camping_main:
  "main example_runtime camping_world =
     ([Stdout (lit ''Generating post for niche: budget camping gear''),
       Invoke HuggingFace (build_prompt (lit ''budget camping gear'')),
       HttpPost (hf_payload (lit ''hf_token'') (build_prompt (lit ''budget camping gear''))),
       MkDir (lit ''posts''),
       WriteFile (lit ''posts'') (lit ''2024-05-01-camp-smart.md'')
         (ensure_frontmatter (lit ''2024-05-01'') camping_text),
       Stdout (lit ''Saved: posts/2024-05-01-camp-smart.md'')],
      Inr (lit ''posts/2024-05-01-camp-smart.md''))"
proof -
  have n: "niche_of camping_world = lit ''budget camping gear''"
    by (simp add: niche_of_def camping_world_def lit_eq_iff)
  show ?thesis
    by (simp add: main_def Let_def n camping_generate camping_title camping_save)
       (simp add: camping_world_def lit_def)
qed

subsection \<open>What the driver writes\<close>

lemma front_starts: "startswith (front title date @ out) (lit ''---'')"
  by (simp add: startswith_def front_def)

lemma lstrip_front: "lstrip (front title date @ out) = front title date @ out"
  by (simp add: lstrip_def front_def lit_def isspace_def)

lemma ensure_cases:
  "ensure_frontmatter date out = out \<and> startswith (lstrip out) (lit ''---'')
   \<or> ensure_frontmatter date out = front (parse_title_from_output out) date @ out
     \<and> startswith (ensure_frontmatter date out) (lit ''---'')"
  by (simp add: ensure_frontmatter_def front_starts)

lemma save_markdown_written:
  "WriteFile d f c \<in> set (fst (save_markdown rt w title content out_dir)) \<Longrightarrow> c = content \<and> d = out_dir"
  by (auto simp: save_markdown_def Let_def split: option.splits)

lemma gen_with_openai_no_write: "e \<in> set (fst (gen_with_openai w p)) \<Longrightarrow> is_network e"
  by (auto simp: gen_with_openai_def split: option.splits sum.splits if_splits)

lemma gen_with_hf_no_write: "e \<in> set (fst (gen_with_hf rt w p)) \<Longrightarrow> is_network e"
  by (auto simp: gen_with_hf_def split: option.splits sum.splits if_splits)

lemma generate_events:
  "e \<in> set (fst (generate rt w p)) \<Longrightarrow> is_invoke e \<or> is_network e"
  by (auto simp: generate_def dest: gen_with_openai_no_write gen_with_hf_no_write split: if_splits)

lemma generate_no_write: "WriteFile d f c \<notin> set (fst (generate rt w p))"
  using generate_events [of "WriteFile d f c" rt w p] by auto

lemma save_markdown_filename:
  "WriteFile d f c \<in> set (fst (save_markdown rt w title content out_dir)) \<Longrightarrow>
     f = today_save w @ lit ''-'' @ safe rt title @ lit ''.md''"
  by (auto simp: save_markdown_def Let_def split: option.splits)

lemma main_filename:
  assumes "WriteFile d f c \<in> set (fst (main rt w))"
  shows "\<exists>out. snd (generate rt w (build_prompt (niche_of w))) = Inr (JStr out)
             \<and> f = today_save w @ lit ''-'' @ safe rt (parse_title_from_output out) @ lit ''.md''"
  using assms
  by (auto simp: main_def Let_def generate_no_write dest!: save_markdown_filename
           split: sum.splits json.splits)

lemma main_written:
  assumes "WriteFile d f c \<in> set (fst (main rt w))"
  shows "\<exists>out. snd (generate rt w (build_prompt (niche_of w))) = Inr (JStr out)
             \<and> c = ensure_frontmatter (today_front w) out"
  using assms
  by (auto simp: main_def Let_def generate_no_write dest!: save_markdown_written
           split: sum.splits json.splits)

subsection \<open>The frontmatter guarantee\<close>

text \<open>
  C2, as the code has it: the text is taken to carry frontmatter when it starts with
  \<open>---\<close> after its leading whitespace is stripped, and is then written as it is, the
  whitespace included. So the written post starts with \<open>---\<close> once leading whitespace is
  stripped; it starts with \<open>---\<close> itself whenever the block was prepended. A text whose
  frontmatter is indented by one space is written unchanged and does not start with \<open>---\<close>.
\<close>

theorem post_frontmatter_counterexample:
  "ensure_frontmatter (lit ''2024-05-01'') indented_text = indented_text
   \<and> \<not> startswith indented_text (lit ''---'')"
  by (simp add: ensure_frontmatter_def indented_text_def str_defs)

text \<open>
  C2, amended: for every generated text the post, with its leading whitespace stripped,
  starts with \<open>---\<close>; either the text is passed through (it started with \<open>---\<close> after its
  leading whitespace), or the two-field block was prepended and the post itself starts with
  \<open>---\<close>. Every content the driver writes to a file is such a post.
\<close>

theorem post_frontmatter_after_lstrip:
  "startswith (lstrip (ensure_frontmatter date out)) (lit ''---'')
   \<and> (ensure_frontmatter date out = out \<and> startswith (lstrip out) (lit ''---'')
      \<or> ensure_frontmatter date out = front (parse_title_from_output out) date @ out
        \<and> startswith (ensure_frontmatter date out) (lit ''---''))
   \<and> (WriteFile d f c \<in> set (fst (main rt w)) \<longrightarrow> startswith (lstrip c) (lit ''---''))"
proof (intro conjI impI)
  show a: "startswith (lstrip (ensure_frontmatter date out)) (lit ''---'')" for date out
    by (simp add: ensure_frontmatter_def lstrip_front front_starts)
  show "ensure_frontmatter date out = out \<and> startswith (lstrip out) (lit ''---'')
      \<or> ensure_frontmatter date out = front (parse_title_from_output out) date @ out
        \<and> startswith (ensure_frontmatter date out) (lit ''---'')"
    by (rule ensure_cases)
  assume "WriteFile d f c \<in> set (fst (main rt w))"
  then show "startswith (lstrip c) (lit ''---'')"
    using main_written a by blast
qed

theorem post_frontmatter_after_lstrip_witness:
  "WriteFile (lit ''posts'') (lit ''2024-05-01-camp-smart.md'')
        (ensure_frontmatter (lit ''2024-05-01'') camping_text)
        \<in> set (fst (main example_runtime camping_world))
   \<and> startswith (lstrip (ensure_frontmatter (lit ''2024-05-01'') camping_text)) (lit ''---'')
   \<and> startswith (ensure_frontmatter (lit ''2024-05-01'') camping_text) (lit ''---'')"
proof -
  note t = post_frontmatter_after_lstrip [of "lit ''2024-05-01''" camping_text "lit ''posts''"
      "lit ''2024-05-01-camp-smart.md''" "ensure_frontmatter (lit ''2024-05-01'') camping_text"
      example_runtime camping_world]
  have m: "WriteFile (lit ''posts'') (lit ''2024-05-01-camp-smart.md'')
        (ensure_frontmatter (lit ''2024-05-01'') camping_text)
        \<in> set (fst (main example_runtime camping_world))"
    by (simp add: camping_main)
  from t m camping_not_front show ?thesis
    by blast
qed

text \<open>
  C8: a generated text that starts with \<open>---\<close> is returned unchanged, whatever title its
  lines would yield.
\<close>

theorem frontmatter_idempotent:
  "startswith out (lit ''---'') \<Longrightarrow> ensure_frontmatter date out = out"
  by (simp add: ensure_frontmatter_def lstrip_frontmatter)

theorem frontmatter_idempotent_witness:
  "startswith prefixed_text (lit ''---'')
   \<and> parse_title_from_output prefixed_text = lit ''B''
   \<and> ensure_frontmatter (lit ''2024-05-01'') prefixed_text = prefixed_text"
proof -
  have h: "startswith prefixed_text (lit ''---'')"
    by (simp add: prefixed_text_def startswith_def)
  have l: "splitlines prefixed_text = [lit ''---'', lit ''title: A'', lit ''---'', lit ''# B'']"
    by (simp add: prefixed_text_def splitlines_def lit_def is_linebreak_def)
  have t: "parse_title_from_output prefixed_text = lit ''B''"
    by (simp add: parse_title_from_output_def l) (simp add: str_defs)
  show ?thesis
    using h t frontmatter_idempotent [OF h, of "lit ''2024-05-01''"] by simp
qed

text \<open>
  C10: when the text, after stripping leading whitespace, does not start with \<open>---\<close>, the
  post is exactly the block \<open>---\n title: "<title>"\n date: <date>\n---\n\n\<close> followed by the
  text; in both cases the text is a suffix of the post, and every content the driver writes
  is the post of the text the generator returned.
\<close>

theorem prepended_post_exact:
  "(\<not> startswith (lstrip out) (lit ''---'') \<longrightarrow>
      ensure_frontmatter date out =
        lit ''---'' @ [10] @ lit ''title: '' @ [34] @ parse_title_from_output out @ [34, 10]
        @ lit ''date: '' @ date @ [10] @ lit ''---'' @ [10, 10] @ out)
   \<and> suffix out (ensure_frontmatter date out)
   \<and> (WriteFile d f c \<in> set (fst (main rt w)) \<longrightarrow>
        (\<exists>out'. snd (generate rt w (build_prompt (niche_of w))) = Inr (JStr out')
           \<and> c = ensure_frontmatter (today_front w) out' \<and> suffix out' c))"
proof (intro conjI impI)
  assume "\<not> startswith (lstrip out) (lit ''---'')"
  then show "ensure_frontmatter date out =
        lit ''---'' @ [10] @ lit ''title: '' @ [34] @ parse_title_from_output out @ [34, 10]
        @ lit ''date: '' @ date @ [10] @ lit ''---'' @ [10, 10] @ out"
    by (simp add: ensure_frontmatter_def front_def)
next
  show "suffix out (ensure_frontmatter date out)"
    by (simp add: ensure_frontmatter_def suffix_def)
next
  assume "WriteFile d f c \<in> set (fst (main rt w))"
  then obtain out' where
    "snd (generate rt w (build_prompt (niche_of w))) = Inr (JStr out')"
    "c = ensure_frontmatter (today_front w) out'"
    using main_written by blast
  then show "\<exists>out'. snd (generate rt w (build_prompt (niche_of w))) = Inr (JStr out')
           \<and> c = ensure_frontmatter (today_front w) out' \<and> suffix out' c"
    by (auto simp: ensure_frontmatter_def suffix_def)
qed

theorem prepended_post_exact_witness:
  "\<not> startswith (lstrip camping_text) (lit ''---'')
   \<and> ensure_frontmatter (lit ''2024-05-01'') camping_text =
        lit ''---'' @ [10] @ lit ''title: '' @ [34] @ lit ''Camp Smart'' @ [34, 10]
        @ lit ''date: '' @ lit ''2024-05-01'' @ [10] @ lit ''---'' @ [10, 10] @ camping_text
   \<and> WriteFile (lit ''posts'') (lit ''2024-05-01-camp-smart.md'')
        (ensure_frontmatter (lit ''2024-05-01'') camping_text)
        \<in> set (fst (main example_runtime camping_world))
   \<and> suffix camping_text (ensure_frontmatter (lit ''2024-05-01'') camping_text)"
proof -
  note t = prepended_post_exact [of camping_text "lit ''2024-05-01''" "lit ''posts''"
      "lit ''2024-05-01-camp-smart.md''" "ensure_frontmatter (lit ''2024-05-01'') camping_text"
      example_runtime camping_world]
  have h: "\<not> startswith (lstrip camping_text) (lit ''---'')"
    by (rule camping_not_front)
  have m: "WriteFile (lit ''posts'') (lit ''2024-05-01-camp-smart.md'')
        (ensure_frontmatter (lit ''2024-05-01'') camping_text)
        \<in> set (fst (main example_runtime camping_world))"
    by (simp add: camping_main)
  from t h have e: "ensure_frontmatter (lit ''2024-05-01'') camping_text =
        lit ''---'' @ [10] @ lit ''title: '' @ [34] @ parse_title_from_output camping_text
        @ [34, 10] @ lit ''date: '' @ lit ''2024-05-01'' @ [10] @ lit ''---'' @ [10, 10]
        @ camping_text"
    by blast
  from t have s: "suffix camping_text (ensure_frontmatter (lit ''2024-05-01'') camping_text)"
    by blast
  show ?thesis
    using h m s e [unfolded camping_title] by blast
qed

subsection \<open>The prompt\<close>

text \<open>
  C9: the prompt contains the niche, and is the niche between two fixed strings: it is a
  function of the niche alone.
\<close>

theorem build_prompt_contains_niche:
  "sublist niche (build_prompt niche) \<and> build_prompt niche = prompt_head @ niche @ prompt_tail"
  by (simp add: build_prompt_def)

subsection \<open>The title\<close>

lemma parse_title_loop_find:
  "parse_title_loop ls =
     (case find (\<lambda>line. startswith (strip line) (lit ''#'')) ls of
        None \<Rightarrow> lit ''Auto Generated Post''
      | Some line \<Rightarrow> strip (lstrip_chars (lit ''# '') (strip line)))"
  by (induction ls) simp_all

text \<open>
  C4, as the code has it: line 70 strips every leading \<open>#\<close> and space of the stripped
  line, not the marker alone. For the heading \<open># #1 Tip\<close> the title is \<open>1 Tip\<close>, where the
  marker and the surrounding whitespace stripped leave \<open>#1 Tip\<close>.
\<close>

theorem title_marker_counterexample:
  "parse_title_from_output (lit ''# #1 Tip'') = lit ''1 Tip''
   \<and> title_spec (lit ''# #1 Tip'') = lit ''#1 Tip''"
proof -
  have l: "splitlines (lit ''# #1 Tip'') = [lit ''# #1 Tip'']"
    by (simp add: splitlines_def lit_def is_linebreak_def)
  have s: "strip (lit ''# #1 Tip'') = lit ''# #1 Tip''"
    by (simp add: str_defs)
  have a: "parse_title_from_output (lit ''# #1 Tip'') = lit ''1 Tip''"
    by (simp add: parse_title_from_output_def l s) (simp add: str_defs)
  have b: "title_spec (lit ''# #1 Tip'') = lit ''#1 Tip''"
    by (simp add: title_spec_def l s) (simp add: str_defs)
  from a b show ?thesis by simp
qed

text \<open>
  C4, amended: the title is taken from the first line that starts with \<open>#\<close> once its
  surrounding whitespace is stripped; it is that stripped line without its leading \<open>#\<close> and
  space characters, stripped of surrounding whitespace again. When no line is such a line
  the title is \<open>Auto Generated Post\<close>.
\<close>

theorem parse_title_first_heading:
  "parse_title_from_output text =
     (case find (\<lambda>line. startswith (strip line) (lit ''#'')) (splitlines text) of
        None \<Rightarrow> lit ''Auto Generated Post''
      | Some line \<Rightarrow> strip (lstrip_chars (lit ''# '') (strip line)))
   \<and> ((\<forall>line \<in> set (splitlines text). \<not> startswith (strip line) (lit ''#''))
        \<longrightarrow> parse_title_from_output text = lit ''Auto Generated Post'')
   \<and> (\<forall>pre line post.
        splitlines text = pre @ line # post
        \<and> (\<forall>l \<in> set pre. \<not> startswith (strip l) (lit ''#''))
        \<and> startswith (strip line) (lit ''#'')
        \<longrightarrow> parse_title_from_output text = strip (lstrip_chars (lit ''# '') (strip line)))"
proof (intro conjI impI allI)
  show f: "parse_title_from_output text =
     (case find (\<lambda>line. startswith (strip line) (lit ''#'')) (splitlines text) of
        None \<Rightarrow> lit ''Auto Generated Post''
      | Some line \<Rightarrow> strip (lstrip_chars (lit ''# '') (strip line)))"
    by (simp add: parse_title_from_output_def parse_title_loop_find)
  {
    assume "\<forall>line \<in> set (splitlines text). \<not> startswith (strip line) (lit ''#'')"
    then have "find (\<lambda>line. startswith (strip line) (lit ''#'')) (splitlines text) = None"
      by (simp add: find_None_iff)
    with f show "parse_title_from_output text = lit ''Auto Generated Post''"
      by simp
  }
  fix pre line post
  assume a: "splitlines text = pre @ line # post
        \<and> (\<forall>l \<in> set pre. \<not> startswith (strip l) (lit ''#''))
        \<and> startswith (strip line) (lit ''#'')"
  have "find P (pre @ line # post) = Some line"
    if "\<forall>l \<in> set pre. \<not> P l" "P line" for P :: "pystr \<Rightarrow> bool"
    using that by (induction pre) simp_all
  with a have "find (\<lambda>line. startswith (strip line) (lit ''#'')) (splitlines text) = Some line"
    by simp
  with f show "parse_title_from_output text = strip (lstrip_chars (lit ''# '') (strip line))"
    by simp
qed

theorem parse_title_first_heading_witness:
  "splitlines great_text = [lit ''Intro''] @ lit ''# My Great Post'' # [lit ''## Next'']
   \<and> \<not> startswith (strip (lit ''Intro'')) (lit ''#'')
   \<and> startswith (strip (lit ''# My Great Post'')) (lit ''#'')
   \<and> parse_title_from_output great_text = lit ''My Great Post''
   \<and> splitlines (lit ''no heading here'') = [lit ''no heading here'']
   \<and> \<not> startswith (strip (lit ''no heading here'')) (lit ''#'')
   \<and> parse_title_from_output (lit ''no heading here'') = lit ''Auto Generated Post''"
proof -
  note t = parse_title_first_heading [of great_text]
  note u = parse_title_first_heading [of "lit ''no heading here''"]
  have l: "splitlines great_text = [lit ''Intro''] @ lit ''# My Great Post'' # [lit ''## Next'']"
    by (simp add: great_text_def splitlines_def lit_def is_linebreak_def)
  have i: "\<not> startswith (strip (lit ''Intro'')) (lit ''#'')"
    by (simp add: str_defs)
  have h: "startswith (strip (lit ''# My Great Post'')) (lit ''#'')"
    by (simp add: str_defs)
  have v: "strip (lstrip_chars (lit ''# '') (strip (lit ''# My Great Post''))) = lit ''My Great Post''"
    by (simp add: str_defs)
  have p: "parse_title_from_output great_text = lit ''My Great Post''"
    using t l i h v by (metis empty_iff empty_set set_ConsD)
  have m: "splitlines (lit ''no heading here'') = [lit ''no heading here'']"
    by (simp add: splitlines_def lit_def is_linebreak_def)
  have n: "\<not> startswith (strip (lit ''no heading here'')) (lit ''#'')"
    by (simp add: str_defs)
  have q: "parse_title_from_output (lit ''no heading here'') = lit ''Auto Generated Post''"
    using u m n by simp
  from l i h p m n q show ?thesis by blast
qed

subsection \<open>The slug\<close>

lemma strip_chars_hyphen:
  "strip_chars (lit ''-'') s = rev (dropWhile (\<lambda>c. c = 45) (rev (dropWhile (\<lambda>c. c = 45) s)))"
  by (simp add: strip_chars_def rstrip_chars_def lstrip_chars_def lit_def)

lemma rstrip_prefix: "prefix (rev (dropWhile P (rev s))) s"
proof -
  have "rev s = takeWhile P (rev s) @ dropWhile P (rev s)"
    by simp
  then have "s = rev (dropWhile P (rev s)) @ rev (takeWhile P (rev s))"
    by (metis rev_append rev_rev_ident)
  then show ?thesis
    by (metis prefixI)
qed

lemma strip_set: "set (rev (dropWhile P (rev (dropWhile P s)))) \<subseteq> set s"
proof -
  have "set (rev (dropWhile P (rev (dropWhile P s)))) \<subseteq> set (dropWhile P s)"
    using rstrip_prefix [of P "dropWhile P s"] by (rule set_mono_prefix)
  also have "\<dots> \<subseteq> set s"
    by (rule set_dropWhileD [THEN subsetI]) 
  finally show ?thesis .
qed

lemma strip_length: "length (rev (dropWhile P (rev (dropWhile P s)))) \<le> length s"
proof -
  have "length (rev (dropWhile P (rev (dropWhile P s)))) \<le> length (dropWhile P s)"
    using rstrip_prefix [of P "dropWhile P s"] by (rule prefix_length_le)
  also have "\<dots> \<le> length s"
    by (rule length_dropWhile_le)
  finally show ?thesis .
qed

lemma strip_no_lead: "\<not> prefix [x] (rev (dropWhile P (rev (dropWhile P s))))" if "P x"
proof
  assume a: "prefix [x] (rev (dropWhile P (rev (dropWhile P s))))"
  then have "prefix [x] (dropWhile P s)"
    using rstrip_prefix [of P "dropWhile P s"] by (rule prefix_order.trans)
  then obtain r where "dropWhile P s = x # r"
    by (auto simp: prefix_def)
  then have "\<not> P x"
    by (metis hd_dropWhile list.sel(1) list.distinct(1))
  with that show False by simp
qed

lemma strip_no_trail: "\<not> suffix [x] (rev (dropWhile P (rev t)))" if "P x"
proof
  assume "suffix [x] (rev (dropWhile P (rev t)))"
  then have "prefix [x] (dropWhile P (rev t))"
    by (metis rev_rev_ident suffix_to_prefix rev.simps(2) rev.simps(1) append_Nil)
  then obtain r where "dropWhile P (rev t) = x # r"
    by (auto simp: prefix_def)
  then have "\<not> P x"
    by (metis hd_dropWhile list.sel(1) list.distinct(1))
  with that show False by simp
qed

lemma set_py_lower_ascii:
  assumes "\<forall>c\<in>set s. c < 128"
  shows "\<forall>c\<in>set (py_lower rt s). c < 65 \<or> (90 < c \<and> c < 128)"
  using assms by (auto simp: py_lower_ascii ascii_lower_def)

text \<open>
  C3, as the code has it: line 58 lowercases the title and keeps what \<open>isalnum\<close> accepts.
  An uppercase letter that has no lowercase form stays: the slug of the one-letter title
  U+03D2 is that letter, which is neither a hyphen nor a lowercase alphanumeric.
\<close>

theorem slug_uppercase_counterexample:
  "safe upsilon_runtime [978] = [978]
   \<and> py_isupper upsilon_runtime 978
   \<and> \<not> list_all (lowercase_alnum_or_hyphen upsilon_runtime) (safe upsilon_runtime [978])"
proof -
  have l: "py_lower upsilon_runtime [978] = [978]"
    by (simp add: py_lower_def upsilon_runtime_def)
  have a: "py_isalnum upsilon_runtime 978"
    by (simp add: py_isalnum_def upsilon_runtime_def)
  have u: "py_isupper upsilon_runtime 978"
    by (simp add: py_isupper_def upsilon_runtime_def)
  have s: "safe upsilon_runtime [978] = [978]"
    by (simp add: safe_def l a strip_chars_def lstrip_chars_def rstrip_chars_def lit_def)
  from s u show ?thesis
    by (simp add: lowercase_alnum_or_hyphen_def)
qed

text \<open>
  C3, amended: the slug of the file name is the lowercased title with every character
  that is not alphanumeric replaced by a hyphen, cut to 60 characters and stripped of leading
  and trailing hyphens. Every character of it is a hyphen or an alphanumeric character of
  the lowercased title (for a title of ASCII characters: a hyphen, a digit or a letter from
  \<open>a\<close> to \<open>z\<close>); it neither starts nor ends with a hyphen; it has at most 60 characters.
  The name of every file written is the date, a hyphen, this slug of the title and \<open>.md\<close>.
\<close>

theorem slug_shape:
  "safe rt title = slug_spec rt title
   \<and> (\<forall>c \<in> set (safe rt title). c = 45 \<or> (py_isalnum rt c \<and> c \<in> set (py_lower rt title)))
   \<and> ((\<forall>c \<in> set title. c < 128) \<longrightarrow>
        (\<forall>c \<in> set (safe rt title). c = 45 \<or> (48 \<le> c \<and> c \<le> 57) \<or> (97 \<le> c \<and> c \<le> 122)))
   \<and> \<not> startswith (safe rt title) (lit ''-'')
   \<and> \<not> suffix (lit ''-'') (safe rt title)
   \<and> length (safe rt title) \<le> 60
   \<and> (WriteFile d f c \<in> set (fst (save_markdown rt w title content out_dir)) \<longrightarrow>
        f = today_save w @ lit ''-'' @ safe rt title @ lit ''.md'')
   \<and> (WriteFile d f c \<in> set (fst (main rt w)) \<longrightarrow>
        (\<exists>out. snd (generate rt w (build_prompt (niche_of w))) = Inr (JStr out)
           \<and> f = today_save w @ lit ''-'' @ safe rt (parse_title_from_output out) @ lit ''.md''))"
proof -
  let ?h = "map (\<lambda>c. if py_isalnum rt c then c else 45) (py_lower rt title)"
  have s: "safe rt title = rev (dropWhile (\<lambda>c. c = 45) (rev (dropWhile (\<lambda>c. c = 45) (take 60 ?h))))"
    by (simp add: safe_def strip_chars_hyphen)
  have 1: "safe rt title = slug_spec rt title"
    by (simp add: s slug_spec_def)
  have sub: "set (safe rt title) \<subseteq> set ?h"
    unfolding s using strip_set set_take_subset by (rule subset_trans)
  have 2: "\<forall>c \<in> set (safe rt title). c = 45 \<or> (py_isalnum rt c \<and> c \<in> set (py_lower rt title))"
    using sub by auto
  have 3: "\<forall>c \<in> set (safe rt title). c = 45 \<or> (48 \<le> c \<and> c \<le> 57) \<or> (97 \<le> c \<and> c \<le> 122)"
    if a: "\<forall>c \<in> set title. c < 128"
  proof
    fix c assume "c \<in> set (safe rt title)"
    with 2 have "c = 45 \<or> (py_isalnum rt c \<and> c \<in> set (py_lower rt title))"
      by blast
    moreover have "c < 65 \<or> (90 < c \<and> c < 128)" if "c \<in> set (py_lower rt title)"
      using set_py_lower_ascii [OF a, of rt] that by blast
    ultimately show "c = 45 \<or> (48 \<le> c \<and> c \<le> 57) \<or> (97 \<le> c \<and> c \<le> 122)"
      by (auto simp: py_isalnum_def split: if_splits)
  qed
  have 4: "\<not> startswith (safe rt title) (lit ''-'')"
    unfolding s startswith_def by (simp add: lit_def strip_no_lead)
  have 5: "\<not> suffix (lit ''-'') (safe rt title)"
    unfolding s by (simp add: lit_def strip_no_trail)
  have "length (safe rt title) \<le> length (take 60 ?h)"
    unfolding s by (rule strip_length)
  then have 6: "length (safe rt title) \<le> 60"
    by simp
  have 7: "WriteFile d f c \<in> set (fst (save_markdown rt w title content out_dir)) \<longrightarrow>
        f = today_save w @ lit ''-'' @ safe rt title @ lit ''.md''"
    using save_markdown_filename by blast
  have 8: "WriteFile d f c \<in> set (fst (main rt w)) \<longrightarrow>
        (\<exists>out. snd (generate rt w (build_prompt (niche_of w))) = Inr (JStr out)
           \<and> f = today_save w @ lit ''-'' @ safe rt (parse_title_from_output out) @ lit ''.md'')"
    using main_filename by blast
  from 1 2 3 4 5 6 7 8 show ?thesis by blast
qed

lemma hello_safe: "safe rt (lit ''Hello, World! 2024'') = lit ''hello--world--2024''"
  by (subst safe_def, subst py_lower_ascii)
     (simp_all add: lit_def ascii_lower_def py_isalnum_def strip_chars_def lstrip_chars_def rstrip_chars_def)

theorem slug_shape_witness:
  "list_all (\<lambda>c. c < 128) (lit ''Hello, World! 2024'')
   \<and> safe example_runtime (lit ''Hello, World! 2024'') = lit ''hello--world--2024''
   \<and> slug_spec example_runtime (lit ''Hello, World! 2024'') = lit ''hello--world--2024''
   \<and> list_all (\<lambda>c. c = 45 \<or> (48 \<le> c \<and> c \<le> 57) \<or> (97 \<le> c \<and> c \<le> 122))
        (lit ''hello--world--2024'')
   \<and> \<not> startswith (lit ''hello--world--2024'') (lit ''-'')
   \<and> \<not> suffix (lit ''-'') (lit ''hello--world--2024'')
   \<and> length (lit ''hello--world--2024'') \<le> 60
   \<and> WriteFile (lit ''posts'') (lit ''2024-05-01-camp-smart.md'') camping_text
        \<in> set (fst (save_markdown example_runtime camping_world (lit ''Camp Smart'')
                        camping_text (lit ''posts'')))
   \<and> lit ''2024-05-01-camp-smart.md'' =
        today_save camping_world @ lit ''-'' @ safe example_runtime (lit ''Camp Smart'') @ lit ''.md''"
proof -
  note t = slug_shape [of example_runtime "lit ''Hello, World! 2024''" "lit ''posts''"
      "lit ''2024-05-01-camp-smart.md''" camping_text camping_world camping_text "lit ''posts''",
      unfolded hello_safe]
  note u = slug_shape [of example_runtime "lit ''Camp Smart''" "lit ''posts''"
      "lit ''2024-05-01-camp-smart.md''" camping_text camping_world camping_text "lit ''posts''"]
  have a: "\<forall>c \<in> set (lit ''Hello, World! 2024''). c < 128"
    by (simp add: lit_def)
  have m: "WriteFile (lit ''posts'') (lit ''2024-05-01-camp-smart.md'') camping_text
        \<in> set (fst (save_markdown example_runtime camping_world (lit ''Camp Smart'')
                        camping_text (lit ''posts'')))"
    by (simp add: camping_save)
  from u m have n: "lit ''2024-05-01-camp-smart.md'' =
        today_save camping_world @ lit ''-'' @ safe example_runtime (lit ''Camp Smart'') @ lit ''.md''"
    by blast
  from t a have "list_all (\<lambda>c. c < 128) (lit ''Hello, World! 2024'')
   \<and> safe example_runtime (lit ''Hello, World! 2024'') = lit ''hello--world--2024''
   \<and> slug_spec example_runtime (lit ''Hello, World! 2024'') = lit ''hello--world--2024''
   \<and> list_all (\<lambda>c. c = 45 \<or> (48 \<le> c \<and> c \<le> 57) \<or> (97 \<le> c \<and> c \<le> 122))
        (lit ''hello--world--2024'')
   \<and> \<not> startswith (lit ''hello--world--2024'') (lit ''-'')
   \<and> \<not> suffix (lit ''-'') (lit ''hello--world--2024'')
   \<and> length (lit ''hello--world--2024'') \<le> 60"
    unfolding list_all_iff using hello_safe [of example_runtime] by metis
  with m n show ?thesis
    by blast
qed

subsection \<open>The answer of the second provider\<close>

text \<open>
  C1: on the empty list line 39 reads \<open>data[0]\<close> and raises an \<open>IndexError\<close>; on a list
  whose first entry is a number it raises a \<open>TypeError\<close>. Neither reaches line 44.
\<close>

theorem hf_extract_empty_list:
  "hf_extract rt (JList []) = Inl IndexError \<and> hf_extract rt (JList [JInt 5]) = Inl TypeError"
  by (simp add: hf_extract_def py_in_def)

text \<open>The chain on the bodies it was written for.\<close>

lemma key_in_dict: "k \<in> fst ` set d \<longleftrightarrow> map_of d k \<noteq> None"
  by (simp add: map_of_eq_None_iff)

lemma hf_extract_chain:
  "(map_of d (lit ''error'') = Some (JStr msg) \<longrightarrow>
      hf_extract rt (JDict d) = Inl (RuntimeError (lit ''HF error: '' @ msg)))
   \<and> (map_of d (lit ''generated_text'') = Some v \<longrightarrow>
      hf_extract rt (JList (JDict d # xs)) = Inr v)
   \<and> (map_of d (lit ''generated_text'') = None \<longrightarrow>
      hf_extract rt (JList (JDict d # xs)) = Inr (JStr (str_of rt (JDict d))))
   \<and> (map_of d (lit ''error'') = None \<longrightarrow>
      hf_extract rt (JDict d) = Inr (JStr (str_of rt (JDict d))))
   \<and> hf_extract rt JNull = Inr (JStr (str_of rt JNull))
   \<and> hf_extract rt (JBool b) = Inr (JStr (str_of rt (JBool b)))
   \<and> hf_extract rt (JInt i) = Inr (JStr (str_of rt (JInt i)))
   \<and> hf_extract rt (JFloat m e) = Inr (JStr (str_of rt (JFloat m e)))
   \<and> hf_extract rt (JStr s) = Inr (JStr (str_of rt (JStr s)))"
  by (simp add: hf_extract_def py_in_def py_getitem_def key_in_dict)

subsection \<open>The driver and the generators\<close>

lemma main_prefix:
  "main rt w = (t, r) \<Longrightarrow>
     \<exists>rest. t = Stdout (lit ''Generating post for niche: '' @ niche_of w)
                 # fst (generate rt w (build_prompt (niche_of w))) @ rest
          \<and> list_all (\<lambda>e. \<not> is_invoke e \<and> \<not> is_network e) rest"
  by (auto simp: main_def Let_def save_markdown_def split: sum.splits json.splits option.splits)

lemma gen_with_openai_network: "list_all is_network (fst (gen_with_openai w p))"
  by (auto simp: gen_with_openai_def split: option.splits sum.splits)

lemma gen_with_hf_network: "list_all is_network (fst (gen_with_hf rt w p))"
  by (auto simp: gen_with_hf_def split: option.splits sum.splits)

lemma filter_invoke_network: "list_all is_network t \<Longrightarrow> filter is_invoke t = []"
  by (induction t) (auto elim: is_network.elims)

lemma filter_invoke_rest:
  "list_all (\<lambda>e. \<not> is_invoke e \<and> \<not> is_network e) t \<Longrightarrow> filter is_invoke t = []"
  by (induction t) auto

lemma generate_invokes:
  "filter is_invoke (fst (generate rt w p)) =
     [Invoke (if USE_OPENAI rt w then OpenAI else HuggingFace) p]"
  by (simp add: generate_def filter_invoke_network gen_with_openai_network gen_with_hf_network)

lemma lower_ascii_word:
  "list_all (\<lambda>c. c < 128) v \<Longrightarrow> py_lower rt v = map ascii_lower v"
  by (simp add: py_lower_ascii list_all_iff)

lemma lower_true: "py_lower rt (lit ''true'') = lit ''true''"
  by (subst py_lower_ascii) (simp_all add: lit_def ascii_lower_def)

text \<open>
  C7: a run calls exactly one generator: its trace is the status line, the call of the
  selected generator, what that generator does, and then events that are neither a call nor
  a network request. The first provider is selected exactly when \<open>USE_OPENAI\<close> is unset or
  its lowercased value is \<open>1\<close>, \<open>true\<close> or \<open>yes\<close>.
\<close>

theorem one_generator_per_run:
  "filter is_invoke (fst (main rt w)) =
     [Invoke (if USE_OPENAI rt w then OpenAI else HuggingFace) (build_prompt (niche_of w))]
   \<and> (\<exists>rest. fst (main rt w) =
         Stdout (lit ''Generating post for niche: '' @ niche_of w)
         # Invoke (if USE_OPENAI rt w then OpenAI else HuggingFace) (build_prompt (niche_of w))
         # (if USE_OPENAI rt w then fst (gen_with_openai w (build_prompt (niche_of w)))
            else fst (gen_with_hf rt w (build_prompt (niche_of w))))
         @ rest
       \<and> list_all (\<lambda>e. \<not> is_invoke e \<and> \<not> is_network e) rest)
   \<and> (USE_OPENAI rt w \<longleftrightarrow>
        (case environ w (lit ''USE_OPENAI'') of
           None \<Rightarrow> True
         | Some v \<Rightarrow> py_lower rt v = lit ''1'' \<or> py_lower rt v = lit ''true''
                      \<or> py_lower rt v = lit ''yes''))
   \<and> (\<forall>v. environ w (lit ''USE_OPENAI'') = Some v \<and> list_all (\<lambda>c. c < 128) v \<longrightarrow>
        (USE_OPENAI rt w \<longleftrightarrow>
           map ascii_lower v \<in> set [lit ''1'', lit ''true'', lit ''yes'']))"
proof -
  obtain t r where m: "main rt w = (t, r)"
    by (cases "main rt w")
  from main_prefix [OF m] obtain rest where
    t: "t = Stdout (lit ''Generating post for niche: '' @ niche_of w)
            # fst (generate rt w (build_prompt (niche_of w))) @ rest"
    and rest: "list_all (\<lambda>e. \<not> is_invoke e \<and> \<not> is_network e) rest"
    by blast
  have 1: "filter is_invoke (fst (main rt w)) =
     [Invoke (if USE_OPENAI rt w then OpenAI else HuggingFace) (build_prompt (niche_of w))]"
    by (simp add: m t generate_invokes filter_invoke_rest [OF rest])
  have "fst (main rt w) =
         Stdout (lit ''Generating post for niche: '' @ niche_of w)
         # Invoke (if USE_OPENAI rt w then OpenAI else HuggingFace) (build_prompt (niche_of w))
         # (if USE_OPENAI rt w then fst (gen_with_openai w (build_prompt (niche_of w)))
            else fst (gen_with_hf rt w (build_prompt (niche_of w))))
         @ rest"
    by (simp add: m t generate_def)
  with rest have 2: "\<exists>rest. fst (main rt w) =
         Stdout (lit ''Generating post for niche: '' @ niche_of w)
         # Invoke (if USE_OPENAI rt w then OpenAI else HuggingFace) (build_prompt (niche_of w))
         # (if USE_OPENAI rt w then fst (gen_with_openai w (build_prompt (niche_of w)))
            else fst (gen_with_hf rt w (build_prompt (niche_of w))))
         @ rest
       \<and> list_all (\<lambda>e. \<not> is_invoke e \<and> \<not> is_network e) rest"
    by blast
  have 3: "USE_OPENAI rt w \<longleftrightarrow>
        (case environ w (lit ''USE_OPENAI'') of
           None \<Rightarrow> True
         | Some v \<Rightarrow> py_lower rt v = lit ''1'' \<or> py_lower rt v = lit ''true''
                      \<or> py_lower rt v = lit ''yes'')"
    by (simp add: USE_OPENAI_def lower_true split: option.splits)
  have 4: "\<forall>v. environ w (lit ''USE_OPENAI'') = Some v \<and> list_all (\<lambda>c. c < 128) v \<longrightarrow>
        (USE_OPENAI rt w \<longleftrightarrow>
           map ascii_lower v \<in> set [lit ''1'', lit ''true'', lit ''yes''])"
    by (simp add: USE_OPENAI_def lower_ascii_word)
  from 1 2 3 4 show ?thesis by blast
qed

lemma no_key_flag: "USE_OPENAI rt no_key_world"
proof -
  have "py_lower rt (lit ''True'') = lit ''true''"
    by (subst py_lower_ascii) (simp_all add: lit_def ascii_lower_def)
  then show ?thesis
    by (simp add: USE_OPENAI_def no_key_world_def lit_eq_iff)
qed

lemma no_token_flag: "\<not> USE_OPENAI rt no_token_world"
proof -
  have "py_lower rt (lit ''no'') = lit ''no''"
    by (subst py_lower_ascii) (simp_all add: lit_def ascii_lower_def)
  then show ?thesis
    by (simp add: USE_OPENAI_def no_token_world_def lit_eq_iff)
qed

theorem one_generator_per_run_witness:
  "environ no_key_world (lit ''USE_OPENAI'') = Some (lit ''True'')
   \<and> list_all (\<lambda>c. c < 128) (lit ''True'')
   \<and> map ascii_lower (lit ''True'') = lit ''true''
   \<and> USE_OPENAI example_runtime no_key_world
   \<and> filter is_invoke (fst (main example_runtime no_key_world)) =
       [Invoke OpenAI (build_prompt (niche_of no_key_world))]
   \<and> environ camping_world (lit ''USE_OPENAI'') = Some (lit ''false'')
   \<and> \<not> USE_OPENAI example_runtime camping_world
   \<and> filter is_invoke (fst (main example_runtime camping_world)) =
       [Invoke HuggingFace (build_prompt (niche_of camping_world))]"
proof -
  note a = one_generator_per_run [of example_runtime no_key_world]
  note b = one_generator_per_run [of example_runtime camping_world]
  have e: "environ no_key_world (lit ''USE_OPENAI'') = Some (lit ''True'')"
    by (simp add: no_key_world_def)
  have l: "list_all (\<lambda>c. c < 128) (lit ''True'')"
    by (simp add: lit_def)
  have m: "map ascii_lower (lit ''True'') = lit ''true''"
    by (simp add: lit_def ascii_lower_def)
  from a e l have "USE_OPENAI example_runtime no_key_world \<longleftrightarrow>
      map ascii_lower (lit ''True'') \<in> set [lit ''1'', lit ''true'', lit ''yes'']"
    by blast
  then have u: "USE_OPENAI example_runtime no_key_world"
    by (simp add: m)
  have f: "environ camping_world (lit ''USE_OPENAI'') = Some (lit ''false'')"
    by (simp add: camping_world_def lit_eq_iff)
  from a u have ia: "filter is_invoke (fst (main example_runtime no_key_world)) =
       [Invoke OpenAI (build_prompt (niche_of no_key_world))]"
    by simp
  from b camping_flag have ib: "filter is_invoke (fst (main example_runtime camping_world)) =
       [Invoke HuggingFace (build_prompt (niche_of camping_world))]"
    by simp
  from e l m u ia f camping_flag ib show ?thesis
    by blast
qed

text \<open>
  C5: when the credential of a provider is not in the environment its generator raises
  \<open>RuntimeError("... not set")\<close> with an empty trace, and a run that selects this provider
  ends with that error after the status line and the call: no network request, no
  directory, no file.
\<close>

theorem missing_credential_aborts:
  "(environ w (lit ''OPENAI_API_KEY'') = None \<longrightarrow>
      gen_with_openai w prompt = ([], Inl (RuntimeError (lit ''OPENAI_API_KEY not set'')))
      \<and> (USE_OPENAI rt w \<longrightarrow>
           main rt w =
             ([Stdout (lit ''Generating post for niche: '' @ niche_of w),
               Invoke OpenAI (build_prompt (niche_of w))],
              Inl (RuntimeError (lit ''OPENAI_API_KEY not set'')))))
   \<and> (environ w (lit ''HF_INFERENCE_API_TOKEN'') = None \<longrightarrow>
      gen_with_hf rt w prompt = ([], Inl (RuntimeError (lit ''HF_INFERENCE_API_TOKEN not set'')))
      \<and> (\<not> USE_OPENAI rt w \<longrightarrow>
           main rt w =
             ([Stdout (lit ''Generating post for niche: '' @ niche_of w),
               Invoke HuggingFace (build_prompt (niche_of w))],
              Inl (RuntimeError (lit ''HF_INFERENCE_API_TOKEN not set'')))))"
  by (simp add: gen_with_openai_def gen_with_hf_def main_def generate_def Let_def)

theorem missing_credential_aborts_witness:
  "environ no_key_world (lit ''OPENAI_API_KEY'') = None
   \<and> USE_OPENAI example_runtime no_key_world
   \<and> main example_runtime no_key_world =
       ([Stdout (lit ''Generating post for niche: '' @ lit ''budget camping gear for beginners''),
         Invoke OpenAI (build_prompt (lit ''budget camping gear for beginners''))],
        Inl (RuntimeError (lit ''OPENAI_API_KEY not set'')))
   \<and> list_all (\<lambda>e. \<not> is_network e \<and> \<not> is_file_write e) (fst (main example_runtime no_key_world))
   \<and> environ no_token_world (lit ''HF_INFERENCE_API_TOKEN'') = None
   \<and> \<not> USE_OPENAI example_runtime no_token_world
   \<and> main example_runtime no_token_world =
       ([Stdout (lit ''Generating post for niche: '' @ lit ''budget camping gear for beginners''),
         Invoke HuggingFace (build_prompt (lit ''budget camping gear for beginners''))],
        Inl (RuntimeError (lit ''HF_INFERENCE_API_TOKEN not set'')))
   \<and> list_all (\<lambda>e. \<not> is_network e \<and> \<not> is_file_write e) (fst (main example_runtime no_token_world))"
proof -
  have k: "environ no_key_world (lit ''OPENAI_API_KEY'') = None"
    by (simp add: no_key_world_def lit_eq_iff)
  have t: "environ no_token_world (lit ''HF_INFERENCE_API_TOKEN'') = None"
    by (simp add: no_token_world_def lit_eq_iff)
  have n: "niche_of no_key_world = lit ''budget camping gear for beginners''"
    "niche_of no_token_world = lit ''budget camping gear for beginners''"
    by (simp_all add: niche_of_def no_key_world_def no_token_world_def lit_eq_iff)
  note a = missing_credential_aborts [of no_key_world "build_prompt (niche_of no_key_world)"
      example_runtime, unfolded n]
  note b = missing_credential_aborts [of no_token_world "build_prompt (niche_of no_token_world)"
      example_runtime, unfolded n]
  from a k no_key_flag have ma: "main example_runtime no_key_world =
       ([Stdout (lit ''Generating post for niche: '' @ lit ''budget camping gear for beginners''),
         Invoke OpenAI (build_prompt (lit ''budget camping gear for beginners''))],
        Inl (RuntimeError (lit ''OPENAI_API_KEY not set'')))"
    by blast
  from b t no_token_flag have mb: "main example_runtime no_token_world =
       ([Stdout (lit ''Generating post for niche: '' @ lit ''budget camping gear for beginners''),
         Invoke HuggingFace (build_prompt (lit ''budget camping gear for beginners''))],
        Inl (RuntimeError (lit ''HF_INFERENCE_API_TOKEN not set'')))"
    by blast
  have la: "list_all (\<lambda>e. \<not> is_network e \<and> \<not> is_file_write e) (fst (main example_runtime no_key_world))"
    by (simp add: ma)
  have lb: "list_all (\<lambda>e. \<not> is_network e \<and> \<not> is_file_write e) (fst (main example_runtime no_token_world))"
    by (simp add: mb)
  from k t ma mb la lb no_key_flag no_token_flag show ?thesis
    by blast
qed

text \<open>
  The request of the first provider's generator, for any catalog: the model is
  \<open>gpt-4o-mini\<close> exactly when that string itself is an entry of the catalog.
\<close>

lemma gen_with_openai_request:
  assumes "environ w (lit ''OPENAI_API_KEY'') = Some key" and "key \<noteq> []"
    and "model_list w key = Inr data"
  shows "fst (gen_with_openai w prompt) =
           [ModelList key, ChatCompletion key (openai_request data prompt)]
         \<and> (model (openai_request data prompt) = lit ''gpt-4o-mini''
              \<longleftrightarrow> JStr (lit ''gpt-4o-mini'') \<in> set data)
         \<and> (model (openai_request data prompt) = lit ''gpt-4o''
              \<longleftrightarrow> JStr (lit ''gpt-4o-mini'') \<notin> set data)
         \<and> messages (openai_request data prompt) = [(lit ''user'', prompt)]
         \<and> temperature (openai_request data prompt) = 0.7
         \<and> max_tokens (openai_request data prompt) = 800
         \<and> (\<forall>content rest.
              chat_completion w key (openai_request data prompt) = Inr (Some content # rest)
              \<longrightarrow> snd (gen_with_openai w prompt) = Inr (strip content))"
  using assms
  by (auto simp: gen_with_openai_def openai_request_def first_choice_def lit_eq_iff
      split: sum.splits)

text \<open>
  C6: the catalog holds model objects, and line 16 compares the identifier with each
  object. No object is equal to a string, so with both models listed the request names
  \<open>gpt-4o\<close>, not \<open>gpt-4o-mini\<close>. The rest of the request and the result are as claimed.
\<close>

theorem openai_listed_model_not_selected:
  "model_list openai_world (lit ''sk-test'') = Inr openai_catalog
   \<and> JDict [(lit ''id'', JStr (lit ''gpt-4o-mini'')), (lit ''object'', JStr (lit ''model''))]
       \<in> set openai_catalog
   \<and> fst (gen_with_openai openai_world (lit ''hi'')) =
       [ModelList (lit ''sk-test''),
        ChatCompletion (lit ''sk-test'')
          \<lparr> model = lit ''gpt-4o'', messages = [(lit ''user'', lit ''hi'')],
            temperature = 0.7, max_tokens = 800 \<rparr>]
   \<and> snd (gen_with_openai openai_world (lit ''hi'')) = Inr (lit ''# Title'')"
proof -
  have k: "environ openai_world (lit ''OPENAI_API_KEY'') = Some (lit ''sk-test'')"
    by (simp add: openai_world_def)
  have ne: "lit ''sk-test'' \<noteq> []"
    by (simp add: lit_Nil_iff)
  have d: "model_list openai_world (lit ''sk-test'') = Inr openai_catalog"
    by (simp add: openai_world_def)
  have i: "JDict [(lit ''id'', JStr (lit ''gpt-4o-mini'')), (lit ''object'', JStr (lit ''model''))]
       \<in> set openai_catalog"
    by (simp add: openai_catalog_def)
  note t = gen_with_openai_request [OF k ne d, of "lit ''hi''"]
  have r: "openai_request openai_catalog (lit ''hi'') =
      \<lparr> model = lit ''gpt-4o'', messages = [(lit ''user'', lit ''hi'')],
        temperature = 0.7, max_tokens = 800 \<rparr>"
    by (simp add: openai_request_def openai_catalog_def)
  have c: "chat_completion openai_world (lit ''sk-test'') (openai_request openai_catalog (lit ''hi''))
           = Inr (Some ([32, 10] @ lit ''# Title'' @ [10, 32]) # [])"
    by (simp add: openai_world_def)
  have s: "strip ([32, 10] @ lit ''# Title'' @ [10, 32]) = lit ''# Title''"
    by (simp add: str_defs)
  from t c have "snd (gen_with_openai openai_world (lit ''hi'')) =
      Inr (strip ([32, 10] @ lit ''# Title'' @ [10, 32]))"
    by blast
  with s have v: "snd (gen_with_openai openai_world (lit ''hi'')) = Inr (lit ''# Title'')"
    by simp
  from t have "fst (gen_with_openai openai_world (lit ''hi'')) =
       [ModelList (lit ''sk-test''),
        ChatCompletion (lit ''sk-test'') (openai_request openai_catalog (lit ''hi''))]"
    by blast
  with r have f: "fst (gen_with_openai openai_world (lit ''hi'')) =
       [ModelList (lit ''sk-test''),
        ChatCompletion (lit ''sk-test'')
          \<lparr> model = lit ''gpt-4o'', messages = [(lit ''user'', lit ''hi'')],
            temperature = 0.7, max_tokens = 800 \<rparr>]"
    by simp
  from d i f v show ?thesis by blast
qed

end
